theory Spec2Isabelle
  imports Main "HOL-Library.Word"
begin

section \<open>Values of the host language\<close>

text \<open>
  Errors raised by the two collaborators (the identity provider's SDK client and the
  relational store) are JavaScript \<^verbatim>\<open>Error\<close> objects; the service reads only their
  \<^verbatim>\<open>name\<close> and \<^verbatim>\<open>message\<close>.
\<close>

datatype js_error = JsError (name: string) (message: string)

text \<open>
  The values that reach a condition in the service: \<^verbatim>\<open>resp.UserConfirmed\<close>
  (a boolean or undefined) and the promise an \<^verbatim>\<open>async\<close> function returns when it is
  called without \<^verbatim>\<open>await\<close>. The promise carries the settlement it will have.
  \<open>ToBoolean\<close> is the conversion \<^verbatim>\<open>if (...)\<close> and \<^verbatim>\<open>? :\<close> apply: undefined is
  falsy, a boolean is itself, every object (a promise included) is truthy.
\<close>

datatype JsValue = JsUndefined | JsBoolean bool | JsPromise "js_error + bool"

fun ToBoolean :: "JsValue \<Rightarrow> bool" where
  "ToBoolean JsUndefined = False"
| "ToBoolean (JsBoolean b) = b"
| "ToBoolean (JsPromise settlement) = True"

fun optional_boolean :: "bool option \<Rightarrow> JsValue" where
  "optional_boolean None = JsUndefined"
| "optional_boolean (Some b) = JsBoolean b"

section \<open>Data model\<close>

datatype UserRegistrationStepEnum = PENDING_CONFIRMATION | DONE

record User =
  email :: string
  registrationStep :: UserRegistrationStepEnum
  sub :: "string option"

record SignupInput =
  email :: string
  password :: string

record ConfirmSignupInput =
  email :: string
  code :: string

record LoginInput =
  email :: string
  password :: string

record ConfirmLoginInput =
  email :: string
  session :: string
  code :: string

subsection \<open>The identity provider\<close>

datatype AuthFlowType = USER_PASSWORD_AUTH | REFRESH_TOKEN

text \<open>The commands the service builds, with the fields it sets on each.\<close>

datatype Command =
    SignUpCommand string string string
  | ConfirmSignUpCommand string string string
  | InitiateAuthCommand AuthFlowType string "(string \<times> string) list"
  | AssociateSoftwareTokenCommand "string option"
  | RespondToAuthChallengeCommand string string string "(string \<times> string) list"
  | ForgotPasswordCommand string string

definition NEW_PASSWORD_REQUIRED :: string where
  "NEW_PASSWORD_REQUIRED = ''NEW_PASSWORD_REQUIRED''"

definition MFA_SETUP :: string where
  "MFA_SETUP = ''MFA_SETUP''"

definition SOFTWARE_TOKEN_MFA :: string where
  "SOFTWARE_TOKEN_MFA = ''SOFTWARE_TOKEN_MFA''"

record AuthenticationResultType =
  AccessToken :: "string option"
  IdToken :: "string option"
  RefreshToken :: "string option"
  TokenType :: "string option"
  ExpiresIn :: "int option"

record SignUpCommandOutput =
  UserConfirmed :: "bool option"
  UserSub :: "string option"

record InitiateAuthCommandOutput =
  ChallengeName :: "string option"
  Session :: "string option"
  AuthenticationResult :: "AuthenticationResultType option"

record AssociateSoftwareTokenCommandOutput =
  SecretCode :: "string option"
  Session :: "string option"

record RespondToAuthChallengeCommandOutput =
  ChallengeName :: "string option"
  Session :: "string option"
  AuthenticationResult :: "AuthenticationResultType option"

text \<open>
  The provider is a collaborator outside the repository: it is a parameter of the
  model, one answer function per kind of command, each answering with the command's
  output or with the error the SDK raises.
\<close>

record CognitoIdentityProviderClient =
  signUp :: "Command \<Rightarrow> js_error + SignUpCommandOutput"
  confirmSignUp :: "Command \<Rightarrow> js_error + unit"
  initiateAuth :: "Command \<Rightarrow> js_error + InitiateAuthCommandOutput"
  associateSoftwareToken :: "Command \<Rightarrow> js_error + AssociateSoftwareTokenCommandOutput"
  respondToAuthChallenge :: "Command \<Rightarrow> js_error + RespondToAuthChallengeCommandOutput"
  forgotPasswordCode :: "Command \<Rightarrow> js_error + unit"

record AuthService =
  client :: CognitoIdentityProviderClient
  clientId :: string

subsection \<open>The world the service acts on\<close>

text \<open>
  \<open>users\<close> is the user table, \<open>sent\<close> the commands sent to the provider so far (oldest
  first), \<open>dbFault\<close> an error every store operation rejects with while it is set (a
  lost connection, say).
\<close>

record World =
  users :: "User list"
  sent :: "Command list"
  dbFault :: "js_error option"

definition send :: "(Command \<Rightarrow> js_error + 'o) \<Rightarrow> Command \<Rightarrow> World \<Rightarrow> (js_error + 'o) \<times> World" where
  "send answer command w = (answer command, w\<lparr>sent := sent w @ [command]\<rparr>)"

text \<open>
  Modelled from the spec: the Prisma schema and \<^verbatim>\<open>PrismaService\<close> (src/api/prisma) are
  not among the sources. The store holds one row per email (the spec's invariant, which
  \<^verbatim>\<open>update({ where: { email } })\<close> presupposes): \<open>count\<close> counts the rows with the
  email, \<open>create\<close> appends a row and rejects a second row for an email, \<open>update\<close> sets
  the registration step of the row with the email and rejects when there is none.
\<close>

definition has_email :: "string \<Rightarrow> User \<Rightarrow> bool" where
  "has_email e u = (User.email u = e)"

definition prisma_user_count :: "string \<Rightarrow> World \<Rightarrow> js_error + nat" where
  "prisma_user_count e w =
     (case dbFault w of
        Some err \<Rightarrow> Inl err
      | None \<Rightarrow> Inr (length (filter (has_email e) (users w))))"

definition prisma_user_create :: "User \<Rightarrow> World \<Rightarrow> (js_error + unit) \<times> World" where
  "prisma_user_create row w =
     (case dbFault w of
        Some err \<Rightarrow> (Inl err, w)
      | None \<Rightarrow>
          if list_ex (has_email (User.email row)) (users w)
          then (Inl (JsError ''PrismaClientKnownRequestError''
                             ''Unique constraint failed on the fields: (email)''), w)
          else (Inr (), w\<lparr>users := users w @ [row]\<rparr>))"

definition prisma_user_update ::
    "string \<Rightarrow> UserRegistrationStepEnum \<Rightarrow> World \<Rightarrow> (js_error + unit) \<times> World" where
  "prisma_user_update e step w =
     (case dbFault w of
        Some err \<Rightarrow> (Inl err, w)
      | None \<Rightarrow>
          if list_ex (has_email e) (users w)
          then (Inr (),
                w\<lparr>users := map (\<lambda>u. if has_email e u then u\<lparr>registrationStep := step\<rparr> else u)
                                (users w)\<rparr>)
          else (Inl (JsError ''PrismaClientKnownRequestError''
                             ''Record to update not found.''), w))"

subsection \<open>What the service raises\<close>

datatype HttpResponseBody = Message string | MessageAndName string string

text \<open>
  \<open>Original\<close> is a collaborator's error raised again as it was caught; the others are
  the exception classes the service constructs, with the argument it passes.
\<close>

datatype Thrown =
    Original js_error
  | DuplicateEmailException
  | BadRequestException HttpResponseBody
  | LoginUserException string
  | InvalidUpdateUserException string

section \<open>The authentication service\<close>

subsection \<open>signup\<close>

definition checkIfEmailExists :: "string \<Rightarrow> World \<Rightarrow> JsValue" where
  "checkIfEmailExists e w =
     JsPromise (case prisma_user_count e w of
                  Inl err \<Rightarrow> Inl err
                | Inr emailCount \<Rightarrow> Inr (emailCount > 0))"

definition createNewUserCommand :: "AuthService \<Rightarrow> SignupInput \<Rightarrow> Command" where
  "createNewUserCommand svc input =
     SignUpCommand (clientId svc) (SignupInput.email input) (SignupInput.password input)"

definition sendCreateNewUserCommand ::
    "AuthService \<Rightarrow> SignupInput \<Rightarrow> World \<Rightarrow> (js_error + SignUpCommandOutput) \<times> World" where
  "sendCreateNewUserCommand svc input w =
     send (signUp (client svc)) (createNewUserCommand svc input) w"

definition createNewUser :: "AuthService \<Rightarrow> SignupInput \<Rightarrow> World \<Rightarrow> (js_error + unit) \<times> World" where
  "createNewUser svc input w =
     (case sendCreateNewUserCommand svc input w of
        (Inl err, w1) \<Rightarrow> (Inl err, w1)
      | (Inr resp, w1) \<Rightarrow>
          prisma_user_create
            \<lparr>User.email = SignupInput.email input,
             registrationStep =
               (if ToBoolean (optional_boolean (UserConfirmed resp))
                then PENDING_CONFIRMATION else DONE),
             sub = UserSub resp\<rparr> w1)"

definition signup :: "AuthService \<Rightarrow> SignupInput \<Rightarrow> World \<Rightarrow> (Thrown + unit) \<times> World" where
  "signup svc input w =
     (if ToBoolean (checkIfEmailExists (SignupInput.email input) w)
      then (Inl DuplicateEmailException, w)
      else (case createNewUser svc input w of
              (Inl err, w1) \<Rightarrow> (Inl (BadRequestException (Message (message err))), w1)
            | (Inr u, w1) \<Rightarrow> (Inr (), w1)))"

subsection \<open>confirmSignup\<close>

definition confirmUserSignupCommand :: "AuthService \<Rightarrow> ConfirmSignupInput \<Rightarrow> Command" where
  "confirmUserSignupCommand svc input =
     ConfirmSignUpCommand (clientId svc) (ConfirmSignupInput.email input)
       (ConfirmSignupInput.code input)"

definition sendConfirmUserSignupCommand ::
    "AuthService \<Rightarrow> ConfirmSignupInput \<Rightarrow> World \<Rightarrow> (js_error + unit) \<times> World" where
  "sendConfirmUserSignupCommand svc input w =
     send (confirmSignUp (client svc)) (confirmUserSignupCommand svc input) w"

definition updateUserAfterSignupConfirmation :: "string \<Rightarrow> World \<Rightarrow> (js_error + unit) \<times> World" where
  "updateUserAfterSignupConfirmation e w = prisma_user_update e DONE w"

text \<open>
  \<open>confirmSignup\<close> returns from its \<^verbatim>\<open>catch\<close> block: the value it resolves with is
  \<open>None\<close> (undefined) after both steps, or the exception object it built.
\<close>

definition confirmSignup ::
    "AuthService \<Rightarrow> ConfirmSignupInput \<Rightarrow> World \<Rightarrow> (Thrown + Thrown option) \<times> World" where
  "confirmSignup svc input w =
     (case sendConfirmUserSignupCommand svc input w of
        (Inl err, w1) \<Rightarrow> (Inr (Some (InvalidUpdateUserException (message err))), w1)
      | (Inr u, w1) \<Rightarrow>
          (case updateUserAfterSignupConfirmation (ConfirmSignupInput.email input) w1 of
             (Inl err, w2) \<Rightarrow> (Inr (Some (InvalidUpdateUserException (message err))), w2)
           | (Inr v, w2) \<Rightarrow> (Inr None, w2)))"

subsection \<open>login\<close>

text \<open>
  An object literal is the list of its keys with their values, in the order written;
  \<open>None\<close> is a key whose value is undefined.
\<close>

type_synonym JsObject = "(string \<times> string option) list"

definition loginCommand :: "AuthService \<Rightarrow> LoginInput \<Rightarrow> Command" where
  "loginCommand svc input =
     InitiateAuthCommand USER_PASSWORD_AUTH (clientId svc)
       [(''USERNAME'', LoginInput.email input), (''PASSWORD'', LoginInput.password input)]"

definition sendLoginCommand ::
    "AuthService \<Rightarrow> LoginInput \<Rightarrow> World \<Rightarrow> (js_error + InitiateAuthCommandOutput) \<times> World" where
  "sendLoginCommand svc input w = send (initiateAuth (client svc)) (loginCommand svc input) w"

definition sendSetupMFACommand ::
    "AuthService \<Rightarrow> string option \<Rightarrow> World
       \<Rightarrow> (js_error + AssociateSoftwareTokenCommandOutput) \<times> World" where
  "sendSetupMFACommand svc s w =
     send (associateSoftwareToken (client svc)) (AssociateSoftwareTokenCommand s) w"

definition handleLoginCommandResponse ::
    "AuthService \<Rightarrow> InitiateAuthCommandOutput \<Rightarrow> World \<Rightarrow> (Thrown + JsObject) \<times> World" where
  "handleLoginCommandResponse svc resp w =
     (if InitiateAuthCommandOutput.ChallengeName resp = Some NEW_PASSWORD_REQUIRED
      then (Inr [(''ChallengeName'', Some NEW_PASSWORD_REQUIRED),
                 (''Session'', InitiateAuthCommandOutput.Session resp)], w)
      else if InitiateAuthCommandOutput.ChallengeName resp = Some MFA_SETUP
      then (case sendSetupMFACommand svc (InitiateAuthCommandOutput.Session resp) w of
              (Inl err, w1) \<Rightarrow> (Inl (Original err), w1)
            | (Inr res, w1) \<Rightarrow>
                (Inr [(''ChallengeName'', Some MFA_SETUP),
                      (''Session'', AssociateSoftwareTokenCommandOutput.Session res),
                      (''SecretCode'', SecretCode res)], w1))
      else (Inr [(''ChallengeName'', InitiateAuthCommandOutput.ChallengeName resp),
                 (''Session'', InitiateAuthCommandOutput.Session resp)], w))"

text \<open>
  \<open>login\<close> returns the promise of \<open>handleLoginCommandResponse\<close> without awaiting it,
  so its \<^verbatim>\<open>catch\<close> guards the login command only: a rejection of the second step
  leaves as it is.
\<close>

definition login :: "AuthService \<Rightarrow> LoginInput \<Rightarrow> World \<Rightarrow> (Thrown + JsObject) \<times> World" where
  "login svc input w =
     (case sendLoginCommand svc input w of
        (Inl err, w1) \<Rightarrow> (Inl (LoginUserException (message err)), w1)
      | (Inr resp, w1) \<Rightarrow> handleLoginCommandResponse svc resp w1)"

subsection \<open>confirmLogin\<close>

definition confirmLoginCommand :: "AuthService \<Rightarrow> ConfirmLoginInput \<Rightarrow> Command" where
  "confirmLoginCommand svc input =
     RespondToAuthChallengeCommand (clientId svc) SOFTWARE_TOKEN_MFA
       (ConfirmLoginInput.session input)
       [(''USERNAME'', ConfirmLoginInput.email input),
        (''SOFTWARE_TOKEN_MFA_CODE'', ConfirmLoginInput.code input)]"

definition sendConfirmLoginCommand ::
    "AuthService \<Rightarrow> ConfirmLoginInput \<Rightarrow> World
       \<Rightarrow> (js_error + RespondToAuthChallengeCommandOutput) \<times> World" where
  "sendConfirmLoginCommand svc input w =
     send (respondToAuthChallenge (client svc)) (confirmLoginCommand svc input) w"

definition confirmLogin ::
    "AuthService \<Rightarrow> ConfirmLoginInput \<Rightarrow> World
       \<Rightarrow> (Thrown + AuthenticationResultType option) \<times> World" where
  "confirmLogin svc input w =
     (case sendConfirmLoginCommand svc input w of
        (Inr res, w1) \<Rightarrow> (Inr (RespondToAuthChallengeCommandOutput.AuthenticationResult res), w1)
      | (Inl error, w1) \<Rightarrow>
          if name error = ''CodeMismatchException'' \<or> name error = ''ExpiredCodeException''
          then (Inl (BadRequestException
                       (MessageAndName ''Invalid code, please try again''
                                       ''CodeMismatchException'')), w1)
          else if name error = ''NotAuthorizedException''
          then (Inl (BadRequestException
                       (MessageAndName ''Session expired, please try again''
                                       ''NotAuthorizedException'')), w1)
          else (Inl (Original error), w1))"

subsection \<open>forgotPassword and refreshToken\<close>

definition forgotPasswordCommand :: "AuthService \<Rightarrow> string \<Rightarrow> Command" where
  "forgotPasswordCommand svc e = ForgotPasswordCommand (clientId svc) e"

definition sendForgotPasswordCommand :: "AuthService \<Rightarrow> string \<Rightarrow> World \<Rightarrow> (js_error + unit) \<times> World" where
  "sendForgotPasswordCommand svc e w =
     send (forgotPasswordCode (client svc)) (forgotPasswordCommand svc e) w"

definition forgotPassword :: "AuthService \<Rightarrow> string \<Rightarrow> World \<Rightarrow> (Thrown + unit) \<times> World" where
  "forgotPassword svc e w =
     (case sendForgotPasswordCommand svc e w of
        (Inl error, w1) \<Rightarrow> (Inl (Original error), w1)
      | (Inr u, w1) \<Rightarrow> (Inr (), w1))"

definition refreshTokenCommand :: "AuthService \<Rightarrow> string \<Rightarrow> Command" where
  "refreshTokenCommand svc token =
     InitiateAuthCommand REFRESH_TOKEN (clientId svc) [(''REFRESH_TOKEN'', token)]"

definition sendRefreshTokenCommand ::
    "AuthService \<Rightarrow> string \<Rightarrow> World \<Rightarrow> (js_error + InitiateAuthCommandOutput) \<times> World" where
  "sendRefreshTokenCommand svc token w =
     send (initiateAuth (client svc)) (refreshTokenCommand svc token) w"

definition refreshToken ::
    "AuthService \<Rightarrow> string \<Rightarrow> World \<Rightarrow> (Thrown + InitiateAuthCommandOutput) \<times> World" where
  "refreshToken svc token w =
     (case sendRefreshTokenCommand svc token w of
        (Inl error, w1) \<Rightarrow> (Inl (Original error), w1)
      | (Inr resp, w1) \<Rightarrow> (Inr resp, w1))"

section \<open>The password decorator\<close>

text \<open>
  A JavaScript string is a sequence of UTF-16 code units. The pattern of \<open>IsPassword\<close>
  has no \<^verbatim>\<open>u\<close> flag, so it reads the string one code unit at a time, and no \<^verbatim>\<open>s\<close>
  flag, so \<^verbatim>\<open>.\<close> matches every code unit but the four line terminators: line feed,
  carriage return, U+2028 and U+2029. \<open>utf16\<close> writes a string of ASCII characters as code
  units.
\<close>

type_synonym code_unit = "16 word"

type_synonym js_string = "code_unit list"

definition unit_of :: "char \<Rightarrow> code_unit" where
  "unit_of c = of_char c"

definition utf16 :: "string \<Rightarrow> js_string" where
  "utf16 s = map unit_of s"

definition LineTerminator :: "code_unit \<Rightarrow> bool" where
  "LineTerminator c = (c = 0x000A \<or> c = 0x000D \<or> c = 0x2028 \<or> c = 0x2029)"

text \<open>
  The pattern is \<^verbatim>\<open>^\<close> followed by lookaheads; a lookahead holds a concatenation of
  pieces, each one atom or an atom repeated at least \<open>n\<close> times (\<^verbatim>\<open>.*\<close> is the atom
  \<^verbatim>\<open>.\<close> at least 0 times, \<^verbatim>\<open>.{8,}\<close> at least 8 times). A character class is a list
  of ranges of code units, a single character being the range from itself to itself.
\<close>

datatype Atom = Dot | Class "(code_unit \<times> code_unit) list"

datatype Piece = One Atom | AtLeast nat Atom

definition in_range :: "code_unit \<Rightarrow> code_unit \<times> code_unit \<Rightarrow> bool" where
  "in_range c r = (fst r \<le> c \<and> c \<le> snd r)"

fun atom_matches :: "Atom \<Rightarrow> code_unit \<Rightarrow> bool" where
  "atom_matches Dot c = (\<not> LineTerminator c)"
| "atom_matches (Class ranges) c = list_ex (in_range c) ranges"

text \<open>Whether a concatenation of pieces matches some prefix of the string.\<close>

fun matches_prefix :: "Piece list \<Rightarrow> js_string \<Rightarrow> bool" where
  "matches_prefix [] s = True"
| "matches_prefix (One a # ps) [] = False"
| "matches_prefix (One a # ps) (c # cs) = (atom_matches a c \<and> matches_prefix ps cs)"
| "matches_prefix (AtLeast n a # ps) s =
     ((n = 0 \<and> matches_prefix ps s) \<or>
      (case s of
         [] \<Rightarrow> False
       | c # cs \<Rightarrow> atom_matches a c \<and> matches_prefix (AtLeast (n - 1) a # ps) cs))"

text \<open>\<^verbatim>\<open>regex.test(s)\<close> for a pattern anchored at the start: every lookahead holds at 0.\<close>

definition Matches :: "Piece list list \<Rightarrow> js_string \<Rightarrow> bool" where
  "Matches lookaheads s = list_all (\<lambda>p. matches_prefix p s) lookaheads"

definition IsNotEmpty :: "js_string \<Rightarrow> bool" where
  "IsNotEmpty s = (s \<noteq> [])"

text \<open>
  \<^verbatim>\<open>MinLength\<close> belongs to the validation library, which is not among the sources: the
  length it measures is a parameter of the model, so that what is proved of \<open>IsPassword\<close>
  holds however the library counts. \<open>isLength_len\<close> is the count of the library's
  \<^verbatim>\<open>isLength\<close>, for evaluation at concrete strings: the code units, less the variation
  selectors U+FE0E and U+FE0F, less one for each surrogate pair (a code unit of
  D800..DBFF followed by one of DC00..DFFF, found from left to right without overlap).
\<close>

definition MinLength :: "(js_string \<Rightarrow> nat) \<Rightarrow> nat \<Rightarrow> js_string \<Rightarrow> bool" where
  "MinLength len n s = (n \<le> len s)"

definition presentationSequences :: "js_string \<Rightarrow> nat" where
  "presentationSequences s = length (filter (\<lambda>c. c = 0xFE0F \<or> c = 0xFE0E) s)"

fun surrogatePairs :: "js_string \<Rightarrow> nat" where
  "surrogatePairs (a # b # cs) =
     (if in_range a (0xD800, 0xDBFF) \<and> in_range b (0xDC00, 0xDFFF)
      then Suc (surrogatePairs cs) else surrogatePairs (b # cs))"
| "surrogatePairs [a] = 0"
| "surrogatePairs [] = 0"

definition isLength_len :: "js_string \<Rightarrow> nat" where
  "isLength_len s = length s - presentationSequences s - surrogatePairs s"

definition symbols :: "(code_unit \<times> code_unit) list" where
  "symbols = map (\<lambda>c. (unit_of c, unit_of c)) ''!@#$%^&*?()-_,=+''"

definition passwordPattern :: "Piece list list" where
  "passwordPattern =
     [[AtLeast 0 Dot, One (Class [(unit_of CHR ''a'', unit_of CHR ''z'')])],
      [AtLeast 0 Dot, One (Class [(unit_of CHR ''A'', unit_of CHR ''Z'')])],
      [AtLeast 0 Dot, One (Class [(unit_of CHR ''0'', unit_of CHR ''9'')])],
      [AtLeast 0 Dot, One (Class symbols)],
      [AtLeast 8 Dot]]"

definition IsPassword :: "(js_string \<Rightarrow> nat) \<Rightarrow> js_string \<Rightarrow> bool" where
  "IsPassword len s = (IsNotEmpty s \<and> MinLength len 8 s \<and> Matches passwordPattern s)"

text \<open>
  The policy in the specification's words, to compare with \<open>IsPassword\<close>; its length is
  the number of code units.
\<close>

definition lowercase :: "code_unit \<Rightarrow> bool" where
  "lowercase c = in_range c (unit_of CHR ''a'', unit_of CHR ''z'')"

definition uppercase :: "code_unit \<Rightarrow> bool" where
  "uppercase c = in_range c (unit_of CHR ''A'', unit_of CHR ''Z'')"

definition digit :: "code_unit \<Rightarrow> bool" where
  "digit c = in_range c (unit_of CHR ''0'', unit_of CHR ''9'')"

definition symbol :: "code_unit \<Rightarrow> bool" where
  "symbol c = (c \<in> set (utf16 ''!@#$%^&*?()-_,=+''))"

definition password_policy_spec :: "js_string \<Rightarrow> bool" where
  "password_policy_spec s =
     (s \<noteq> [] \<and> 8 \<le> length s \<and> list_ex lowercase s \<and> list_ex uppercase s \<and>
      list_ex digit s \<and> list_ex symbol s)"

definition first_line :: "js_string \<Rightarrow> js_string" where
  "first_line s = takeWhile (\<lambda>c. \<not> LineTerminator c) s"

section \<open>Concrete inputs\<close>

text \<open>
  A provider that accepts every command and answers with empty outputs, a service on
  it and an empty world: the concrete inputs the theorems below are evaluated at, with
  single answers replaced where a case needs it.
\<close>

definition stub_client :: CognitoIdentityProviderClient where
  "stub_client =
     \<lparr>signUp = (\<lambda>c. Inr \<lparr>UserConfirmed = Some False, UserSub = Some ''sub-1''\<rparr>),
      confirmSignUp = (\<lambda>c. Inr ()),
      initiateAuth = (\<lambda>c. Inr \<lparr>InitiateAuthCommandOutput.ChallengeName = None,
                                Session = None, AuthenticationResult = None\<rparr>),
      associateSoftwareToken = (\<lambda>c. Inr \<lparr>SecretCode = Some ''secret-2'',
                                          Session = Some ''session-2''\<rparr>),
      respondToAuthChallenge = (\<lambda>c. Inr \<lparr>RespondToAuthChallengeCommandOutput.ChallengeName = None,
                                          Session = None, AuthenticationResult = None\<rparr>),
      forgotPasswordCode = (\<lambda>c. Inr ())\<rparr>"

definition service_on :: "CognitoIdentityProviderClient \<Rightarrow> AuthService" where
  "service_on c = \<lparr>client = c, clientId = ''app''\<rparr>"

definition empty_world :: World where
  "empty_world = \<lparr>users = [], sent = [], dbFault = None\<rparr>"

definition alice :: User where
  "alice = \<lparr>User.email = ''alice@example.com'', registrationStep = PENDING_CONFIRMATION,
            sub = Some ''sub-a''\<rparr>"

definition bob :: User where
  "bob = \<lparr>User.email = ''bob@example.com'', registrationStep = PENDING_CONFIRMATION,
          sub = Some ''sub-b''\<rparr>"

definition new_user :: SignupInput where
  "new_user = \<lparr>SignupInput.email = ''new@example.com'', password = ''Abc123!@''\<rparr>"

definition alice_signs_up :: SignupInput where
  "alice_signs_up = \<lparr>SignupInput.email = ''alice@example.com'', password = ''Abc123!@''\<rparr>"

definition alice_confirms :: ConfirmSignupInput where
  "alice_confirms = \<lparr>ConfirmSignupInput.email = ''alice@example.com'', code = ''123456''\<rparr>"

definition alice_logs_in :: LoginInput where
  "alice_logs_in = \<lparr>LoginInput.email = ''alice@example.com'', password = ''Abc123!@''\<rparr>"

definition alice_confirms_login :: ConfirmLoginInput where
  "alice_confirms_login =
     \<lparr>ConfirmLoginInput.email = ''alice@example.com'', session = ''session-1'',
      code = ''654321''\<rparr>"

definition reporting :: "bool \<Rightarrow> CognitoIdentityProviderClient" where
  "reporting confirmed =
     stub_client\<lparr>signUp :=
       (\<lambda>c. Inr \<lparr>UserConfirmed = Some confirmed, UserSub = Some ''sub-1''\<rparr>)\<rparr>"

definition rejecting_confirmation :: CognitoIdentityProviderClient where
  "rejecting_confirmation =
     stub_client\<lparr>confirmSignUp :=
       (\<lambda>c. Inl (JsError ''CodeMismatchException'' ''Invalid verification code provided''))\<rparr>"

definition challenging :: "string option \<Rightarrow> CognitoIdentityProviderClient" where
  "challenging challenge =
     stub_client\<lparr>initiateAuth :=
       (\<lambda>c. Inr \<lparr>InitiateAuthCommandOutput.ChallengeName = challenge,
                  Session = Some ''session-1'', AuthenticationResult = None\<rparr>)\<rparr>"

definition failing_challenge :: "string \<Rightarrow> CognitoIdentityProviderClient" where
  "failing_challenge n =
     stub_client\<lparr>respondToAuthChallenge := (\<lambda>c. Inl (JsError n ''provider text''))\<rparr>"

definition tokens :: AuthenticationResultType where
  "tokens = \<lparr>AccessToken = Some ''access'', IdToken = Some ''id'', RefreshToken = Some ''refresh'',
             TokenType = Some ''Bearer'', ExpiresIn = Some 3600\<rparr>"

definition answering_challenge ::
    "string option \<Rightarrow> string option \<Rightarrow> CognitoIdentityProviderClient" where
  "answering_challenge challenge s =
     stub_client\<lparr>respondToAuthChallenge :=
       (\<lambda>c. Inr \<lparr>RespondToAuthChallengeCommandOutput.ChallengeName = challenge,
                  Session = s, AuthenticationResult = Some tokens\<rparr>)\<rparr>"

definition throttled :: CognitoIdentityProviderClient where
  "throttled =
     stub_client\<lparr>forgotPasswordCode := (\<lambda>c. Inl (JsError ''LimitExceededException'' ''slow down'')),
                  initiateAuth := (\<lambda>c. Inl (JsError ''NotAuthorizedException'' ''token revoked''))\<rparr>"


definition separated_password :: js_string where
  "separated_password = utf16 ''ABCD123!'' @ [0x2028] @ utf16 ''a''"

definition astral_password :: js_string where
  "astral_password = utf16 ''Aa1!'' @ [0xD83D, 0xDE00, 0xD83D, 0xDE00]"

section \<open>Properties of signup\<close>

lemmas world_defs = empty_world_def service_on_def stub_client_def alice_def bob_def

lemma guard_truthy: "ToBoolean (checkIfEmailExists e w)"
  by (simp add: checkIfEmailExists_def)

lemma promise_value:
  "checkIfEmailExists e (w\<lparr>dbFault := None\<rparr>) = JsPromise (Inr (list_ex (has_email e) (users w)))"
  by (simp add: checkIfEmailExists_def prisma_user_count_def filter_empty_conv list_ex_iff)

lemma signup_always_duplicate: "signup svc input w = (Inl DuplicateEmailException, w)"
  by (simp add: signup_def guard_truthy)

text \<open>
  What \<open>createNewUser\<close> does with each answer of the provider: an error leaves the table
  as it was; an output becomes one row whose step is \<open>PENDING_CONFIRMATION\<close> when
  \<^verbatim>\<open>UserConfirmed\<close> is truthy and \<open>DONE\<close> otherwise.
\<close>

lemma createNewUser_provider_error:
  "signUp (client svc) (createNewUserCommand svc input) = Inl err \<Longrightarrow>
   createNewUser svc input w = (Inl err, w\<lparr>sent := sent w @ [createNewUserCommand svc input]\<rparr>)"
  by (simp add: createNewUser_def sendCreateNewUserCommand_def send_def)

lemma createNewUser_inserts:
  "signUp (client svc) (createNewUserCommand svc input) = Inr resp \<Longrightarrow>
   dbFault w = None \<Longrightarrow> \<not> list_ex (has_email (SignupInput.email input)) (users w) \<Longrightarrow>
   createNewUser svc input w =
     (Inr (),
      w\<lparr>sent := sent w @ [createNewUserCommand svc input],
        users := users w @
          [\<lparr>User.email = SignupInput.email input,
            registrationStep = (if UserConfirmed resp = Some True
                                then PENDING_CONFIRMATION else DONE),
            sub = UserSub resp\<rparr>]\<rparr>)"
  by (cases "UserConfirmed resp")
     (simp_all add: createNewUser_def sendCreateNewUserCommand_def send_def
        prisma_user_create_def)

text \<open>
  C1. Claimed: the row \<open>createNewUser\<close> inserts has step \<open>PENDING_CONFIRMATION\<close> exactly when
  the provider reports the account unconfirmed and \<open>DONE\<close> exactly when it reports it
  confirmed, with \<open>sub\<close> the provider's identifier. Evaluated on an empty table: for an
  unconfirmed account the inserted row has step \<open>DONE\<close>, for a confirmed one
  \<open>PENDING_CONFIRMATION\<close>; the two branches of the conditional are exchanged. \<open>sub\<close> is
  the provider's identifier in both.
\<close>

theorem createNewUser_step_inverted:
  "createNewUser (service_on (reporting False)) new_user empty_world
     = (Inr (),
        \<lparr>users = [\<lparr>User.email = ''new@example.com'', registrationStep = DONE,
                    sub = Some ''sub-1''\<rparr>],
         sent = [SignUpCommand ''app'' ''new@example.com'' ''Abc123!@''],
         dbFault = None\<rparr>)
   \<and> createNewUser (service_on (reporting True)) new_user empty_world
     = (Inr (),
        \<lparr>users = [\<lparr>User.email = ''new@example.com'',
                    registrationStep = PENDING_CONFIRMATION, sub = Some ''sub-1''\<rparr>],
         sent = [SignUpCommand ''app'' ''new@example.com'' ''Abc123!@''],
         dbFault = None\<rparr>)"
  by (simp add: createNewUser_def sendCreateNewUserCommand_def createNewUserCommand_def
      send_def prisma_user_create_def world_defs reporting_def new_user_def)

text \<open>
  C2. Claimed: for an email with no row in the table, \<open>signup\<close> sends one create-account
  command and inserts one row. Evaluated on the empty table, where the count of rows
  with the email is 0: \<open>signup\<close> raises \<open>DuplicateEmailException\<close>, sends nothing and
  inserts nothing.
\<close>

theorem signup_unseen_email_rejected:
  "prisma_user_count (SignupInput.email new_user) empty_world = Inr 0
   \<and> signup (service_on stub_client) new_user empty_world
       = (Inl DuplicateEmailException, \<lparr>users = [], sent = [], dbFault = None\<rparr>)"
  by (simp add: signup_always_duplicate prisma_user_count_def empty_world_def)

text \<open>
  C3. For every signup input whose email already has a row in the table, \<open>signup\<close>
  raises \<open>DuplicateEmailException\<close>, and it sends no command to the provider (the
  commands sent are those sent before) and leaves the table as it was.
\<close>

theorem signup_existing_email_DuplicateUser:
  assumes "list_ex (has_email (SignupInput.email input)) (users w)"
  shows "fst (signup svc input w) = Inl DuplicateEmailException
         \<and> sent (snd (signup svc input w)) = sent w
         \<and> users (snd (signup svc input w)) = users w"
  by (simp add: signup_always_duplicate)

theorem signup_existing_email_DuplicateUser_witness:
  "list_ex (has_email (SignupInput.email alice_signs_up)) (users (empty_world\<lparr>users := [alice]\<rparr>))
   \<and> fst (signup (service_on stub_client) alice_signs_up (empty_world\<lparr>users := [alice]\<rparr>))
       = Inl DuplicateEmailException
   \<and> sent (snd (signup (service_on stub_client) alice_signs_up (empty_world\<lparr>users := [alice]\<rparr>)))
       = []
   \<and> users (snd (signup (service_on stub_client) alice_signs_up (empty_world\<lparr>users := [alice]\<rparr>)))
       = [alice]"
proof -
  have h: "list_ex (has_email (SignupInput.email alice_signs_up))
             (users (empty_world\<lparr>users := [alice]\<rparr>))"
    by (simp add: has_email_def world_defs alice_signs_up_def)
  show ?thesis
    using h signup_existing_email_DuplicateUser
              [OF h, where svc = "service_on stub_client"]
    by (simp add: empty_world_def)
qed

text \<open>
  C4. For every signup input and every table, the guard of \<open>signup\<close> is truthy and the
  \<open>DuplicateEmailException\<close> branch is taken, whether or not a row with the email
  exists: the guard tests the promise of the existence check, not the boolean the promise
  settles with (which, on a working store, says whether such a row exists).
\<close>

theorem signup_guard_always_truthy:
  "ToBoolean (checkIfEmailExists (SignupInput.email input) w)
   \<and> checkIfEmailExists (SignupInput.email input) (w\<lparr>dbFault := None\<rparr>)
       = JsPromise (Inr (list_ex (has_email (SignupInput.email input)) (users w)))
   \<and> signup svc input w = (Inl DuplicateEmailException, w)"
  by (simp add: signup_always_duplicate guard_truthy promise_value)

section \<open>Properties of confirmSignup\<close>

lemma update_ignores_sent:
  "fst (prisma_user_update e step (w\<lparr>sent := cs\<rparr>)) = fst (prisma_user_update e step w)"
  by (simp add: prisma_user_update_def split: option.splits)

lemma update_success:
  "fst (prisma_user_update e step w) = Inr () \<Longrightarrow>
   prisma_user_update e step w =
     (Inr (), w\<lparr>users := map (\<lambda>u. if User.email u = e then u\<lparr>registrationStep := step\<rparr> else u)
                             (users w)\<rparr>)"
  by (auto simp add: prisma_user_update_def has_email_def split: option.splits if_splits)

lemma update_failure:
  "fst (prisma_user_update e step w) = Inl err \<Longrightarrow> prisma_user_update e step w = (Inl err, w)"
  by (auto simp add: prisma_user_update_def split: option.splits if_splits)

lemmas eval_defs = world_defs has_email_def prisma_user_update_def
  updateUserAfterSignupConfirmation_def confirmUserSignupCommand_def loginCommand_def
  confirmLoginCommand_def forgotPasswordCommand_def refreshTokenCommand_def
  NEW_PASSWORD_REQUIRED_def MFA_SETUP_def SOFTWARE_TOKEN_MFA_def

text \<open>
  C5. For every call of \<open>confirmSignup\<close>: when the provider accepts the confirmation
  command and the store update succeeds, the call resolves with undefined, and the world
  afterwards differs from the one before only in the command sent and in the registration
  step of the rows with the email, which is \<open>DONE\<close>; when the provider rejects the command,
  or accepts it and the store update fails, the call resolves with an
  \<open>InvalidUpdateUserException\<close> built from the error's message, and the table is as it was.
  In every case the call resolves and does not raise.
\<close>

theorem confirmSignup_outcomes:
  "(confirmSignUp (client svc) (confirmUserSignupCommand svc input) = Inr ()
      \<and> fst (updateUserAfterSignupConfirmation (ConfirmSignupInput.email input) w) = Inr ()
    \<longrightarrow> confirmSignup svc input w =
          (Inr None,
           w\<lparr>sent := sent w @ [confirmUserSignupCommand svc input],
             users := map (\<lambda>u. if User.email u = ConfirmSignupInput.email input
                                then u\<lparr>registrationStep := DONE\<rparr> else u) (users w)\<rparr>))
   \<and> (\<forall>err. confirmSignUp (client svc) (confirmUserSignupCommand svc input) = Inl err
    \<longrightarrow> confirmSignup svc input w =
          (Inr (Some (InvalidUpdateUserException (message err))),
           w\<lparr>sent := sent w @ [confirmUserSignupCommand svc input]\<rparr>))
   \<and> (\<forall>err. confirmSignUp (client svc) (confirmUserSignupCommand svc input) = Inr ()
      \<and> fst (updateUserAfterSignupConfirmation (ConfirmSignupInput.email input) w) = Inl err
    \<longrightarrow> confirmSignup svc input w =
          (Inr (Some (InvalidUpdateUserException (message err))),
           w\<lparr>sent := sent w @ [confirmUserSignupCommand svc input]\<rparr>))
   \<and> (\<exists>v. fst (confirmSignup svc input w) = Inr v)"
proof -
  let ?cmd = "confirmUserSignupCommand svc input"
  let ?e = "ConfirmSignupInput.email input"
  let ?w1 = "w\<lparr>sent := sent w @ [?cmd]\<rparr>"
  have step1: "sendConfirmUserSignupCommand svc input w = (confirmSignUp (client svc) ?cmd, ?w1)"
    by (simp add: sendConfirmUserSignupCommand_def send_def)
  have same: "fst (prisma_user_update ?e DONE ?w1) = fst (prisma_user_update ?e DONE w)"
    by (rule update_ignores_sent)
  have ok: "confirmSignup svc input w =
          (Inr None, ?w1\<lparr>users := map (\<lambda>u. if User.email u = ?e
                                then u\<lparr>registrationStep := DONE\<rparr> else u) (users w)\<rparr>)"
    if a: "confirmSignUp (client svc) ?cmd = Inr ()"
      and b: "fst (updateUserAfterSignupConfirmation ?e w) = Inr ()"
  proof -
    from b same have "fst (prisma_user_update ?e DONE ?w1) = Inr ()"
      by (simp add: updateUserAfterSignupConfirmation_def)
    from update_success [OF this] show ?thesis
      by (simp add: confirmSignup_def step1 a updateUserAfterSignupConfirmation_def)
  qed
  have bad1: "confirmSignup svc input w =
          (Inr (Some (InvalidUpdateUserException (message err))), ?w1)"
    if a: "confirmSignUp (client svc) ?cmd = Inl err" for err
    by (simp add: confirmSignup_def step1 a)
  have bad2: "confirmSignup svc input w =
          (Inr (Some (InvalidUpdateUserException (message err))), ?w1)"
    if a: "confirmSignUp (client svc) ?cmd = Inr ()"
      and b: "fst (updateUserAfterSignupConfirmation ?e w) = Inl err" for err
  proof -
    from b same have "fst (prisma_user_update ?e DONE ?w1) = Inl err"
      by (simp add: updateUserAfterSignupConfirmation_def)
    from update_failure [OF this] show ?thesis
      by (simp add: confirmSignup_def step1 a updateUserAfterSignupConfirmation_def)
  qed
  have resolves: "\<exists>v. fst (confirmSignup svc input w) = Inr v"
    by (simp add: confirmSignup_def split: prod.splits sum.splits)
  from ok bad1 bad2 resolves show ?thesis by blast
qed

theorem confirmSignup_outcomes_witness:
  "(confirmSignUp (client (service_on stub_client))
      (confirmUserSignupCommand (service_on stub_client) alice_confirms) = Inr ()
    \<and> fst (updateUserAfterSignupConfirmation (ConfirmSignupInput.email alice_confirms)
           (empty_world\<lparr>users := [alice, bob]\<rparr>)) = Inr ()
    \<and> confirmSignup (service_on stub_client) alice_confirms (empty_world\<lparr>users := [alice, bob]\<rparr>)
      = (Inr None,
         \<lparr>users = [alice\<lparr>registrationStep := DONE\<rparr>, bob],
          sent = [ConfirmSignUpCommand ''app'' ''alice@example.com'' ''123456''],
          dbFault = None\<rparr>))
   \<and> (confirmSignUp (client (service_on rejecting_confirmation))
         (confirmUserSignupCommand (service_on rejecting_confirmation) alice_confirms)
       = Inl (JsError ''CodeMismatchException'' ''Invalid verification code provided'')
    \<and> confirmSignup (service_on rejecting_confirmation) alice_confirms
         (empty_world\<lparr>users := [alice, bob]\<rparr>)
      = (Inr (Some (InvalidUpdateUserException ''Invalid verification code provided'')),
         \<lparr>users = [alice, bob],
          sent = [ConfirmSignUpCommand ''app'' ''alice@example.com'' ''123456''],
          dbFault = None\<rparr>))
   \<and> (fst (updateUserAfterSignupConfirmation (ConfirmSignupInput.email alice_confirms)
           (empty_world\<lparr>users := [bob]\<rparr>))
       = Inl (JsError ''PrismaClientKnownRequestError'' ''Record to update not found.'')
    \<and> confirmSignup (service_on stub_client) alice_confirms (empty_world\<lparr>users := [bob]\<rparr>)
      = (Inr (Some (InvalidUpdateUserException ''Record to update not found.'')),
         \<lparr>users = [bob],
          sent = [ConfirmSignUpCommand ''app'' ''alice@example.com'' ''123456''],
          dbFault = None\<rparr>))"
proof -
  have a: "confirmSignUp (client (service_on stub_client))
             (confirmUserSignupCommand (service_on stub_client) alice_confirms) = Inr ()
           \<and> fst (updateUserAfterSignupConfirmation (ConfirmSignupInput.email alice_confirms)
                  (empty_world\<lparr>users := [alice, bob]\<rparr>)) = Inr ()"
    by (simp add: eval_defs alice_confirms_def)
  have b: "confirmSignUp (client (service_on rejecting_confirmation))
             (confirmUserSignupCommand (service_on rejecting_confirmation) alice_confirms)
           = Inl (JsError ''CodeMismatchException'' ''Invalid verification code provided'')"
    by (simp add: eval_defs rejecting_confirmation_def)
  have c: "confirmSignUp (client (service_on stub_client))
             (confirmUserSignupCommand (service_on stub_client) alice_confirms) = Inr ()
           \<and> fst (updateUserAfterSignupConfirmation (ConfirmSignupInput.email alice_confirms)
                  (empty_world\<lparr>users := [bob]\<rparr>))
             = Inl (JsError ''PrismaClientKnownRequestError'' ''Record to update not found.'')"
    by (simp add: eval_defs alice_confirms_def)
  from a confirmSignup_outcomes
         [where svc = "service_on stub_client" and input = alice_confirms
            and w = "empty_world\<lparr>users := [alice, bob]\<rparr>"]
  have 1: "confirmSignup (service_on stub_client) alice_confirms
             (empty_world\<lparr>users := [alice, bob]\<rparr>)
     = (Inr None,
        \<lparr>users = [alice\<lparr>registrationStep := DONE\<rparr>, bob],
         sent = [ConfirmSignUpCommand ''app'' ''alice@example.com'' ''123456''],
         dbFault = None\<rparr>)"
    by (simp add: eval_defs alice_confirms_def)
  from b confirmSignup_outcomes
         [where svc = "service_on rejecting_confirmation" and input = alice_confirms
            and w = "empty_world\<lparr>users := [alice, bob]\<rparr>"]
  have 2: "confirmSignup (service_on rejecting_confirmation) alice_confirms
        (empty_world\<lparr>users := [alice, bob]\<rparr>)
     = (Inr (Some (InvalidUpdateUserException ''Invalid verification code provided'')),
        \<lparr>users = [alice, bob],
         sent = [ConfirmSignUpCommand ''app'' ''alice@example.com'' ''123456''],
         dbFault = None\<rparr>)"
    by (simp add: eval_defs alice_confirms_def)
  from c confirmSignup_outcomes
         [where svc = "service_on stub_client" and input = alice_confirms
            and w = "empty_world\<lparr>users := [bob]\<rparr>"]
  have 3: "confirmSignup (service_on stub_client) alice_confirms (empty_world\<lparr>users := [bob]\<rparr>)
     = (Inr (Some (InvalidUpdateUserException ''Record to update not found.'')),
        \<lparr>users = [bob],
         sent = [ConfirmSignUpCommand ''app'' ''alice@example.com'' ''123456''],
         dbFault = None\<rparr>)"
    by (simp add: eval_defs alice_confirms_def)
  from a b c 1 2 3 show ?thesis by simp
qed

section \<open>Properties of login\<close>

text \<open>
  C6. For every answer of the provider to the login command: with challenge
  \<open>NEW_PASSWORD_REQUIRED\<close> the result has the two keys \<open>ChallengeName\<close> and \<open>Session\<close>, from
  that answer, and the login command is the only command sent; with challenge \<open>MFA_SETUP\<close>
  the commands sent are the login command and one associate-software-token command
  carrying the answer's session, and when that second command is answered the result's
  \<open>Session\<close> and \<open>SecretCode\<close> are those of the second answer; with any other challenge,
  or none, the result has the answer's challenge name and session, and the login command
  is the only command sent.
\<close>

theorem login_challenge_handling:
  assumes "initiateAuth (client svc) (loginCommand svc input) = Inr resp"
  shows "(InitiateAuthCommandOutput.ChallengeName resp = Some NEW_PASSWORD_REQUIRED
      \<longrightarrow> login svc input w =
            (Inr [(''ChallengeName'', Some NEW_PASSWORD_REQUIRED),
                  (''Session'', InitiateAuthCommandOutput.Session resp)],
             w\<lparr>sent := sent w @ [loginCommand svc input]\<rparr>))
    \<and> (InitiateAuthCommandOutput.ChallengeName resp = Some MFA_SETUP
      \<longrightarrow> sent (snd (login svc input w)) =
            sent w @ [loginCommand svc input,
                      AssociateSoftwareTokenCommand (InitiateAuthCommandOutput.Session resp)]
          \<and> (\<forall>res. associateSoftwareToken (client svc)
                      (AssociateSoftwareTokenCommand (InitiateAuthCommandOutput.Session resp))
                    = Inr res
               \<longrightarrow> fst (login svc input w) =
                     Inr [(''ChallengeName'', Some MFA_SETUP),
                          (''Session'', AssociateSoftwareTokenCommandOutput.Session res),
                          (''SecretCode'', SecretCode res)]))
    \<and> (InitiateAuthCommandOutput.ChallengeName resp \<noteq> Some NEW_PASSWORD_REQUIRED
        \<and> InitiateAuthCommandOutput.ChallengeName resp \<noteq> Some MFA_SETUP
      \<longrightarrow> login svc input w =
            (Inr [(''ChallengeName'', InitiateAuthCommandOutput.ChallengeName resp),
                  (''Session'', InitiateAuthCommandOutput.Session resp)],
             w\<lparr>sent := sent w @ [loginCommand svc input]\<rparr>))"
proof -
  have step1: "sendLoginCommand svc input w
                 = (Inr resp, w\<lparr>sent := sent w @ [loginCommand svc input]\<rparr>)"
    by (simp add: sendLoginCommand_def send_def assms)
  have names_differ: "NEW_PASSWORD_REQUIRED \<noteq> MFA_SETUP"
    by (simp add: NEW_PASSWORD_REQUIRED_def MFA_SETUP_def)
  show ?thesis
    using names_differ
    by (auto simp add: login_def step1 handleLoginCommandResponse_def sendSetupMFACommand_def
        send_def split: sum.splits)
qed

theorem login_challenge_handling_witness:
  "login (service_on (challenging (Some NEW_PASSWORD_REQUIRED))) alice_logs_in empty_world
     = (Inr [(''ChallengeName'', Some ''NEW_PASSWORD_REQUIRED''),
             (''Session'', Some ''session-1'')],
        \<lparr>users = [],
         sent = [InitiateAuthCommand USER_PASSWORD_AUTH ''app''
                   [(''USERNAME'', ''alice@example.com''), (''PASSWORD'', ''Abc123!@'')]],
         dbFault = None\<rparr>)
   \<and> sent (snd (login (service_on (challenging (Some MFA_SETUP))) alice_logs_in empty_world))
     = [InitiateAuthCommand USER_PASSWORD_AUTH ''app''
          [(''USERNAME'', ''alice@example.com''), (''PASSWORD'', ''Abc123!@'')],
        AssociateSoftwareTokenCommand (Some ''session-1'')]
   \<and> fst (login (service_on (challenging (Some MFA_SETUP))) alice_logs_in empty_world)
     = Inr [(''ChallengeName'', Some ''MFA_SETUP''), (''Session'', Some ''session-2''),
            (''SecretCode'', Some ''secret-2'')]
   \<and> login (service_on (challenging (Some SOFTWARE_TOKEN_MFA))) alice_logs_in empty_world
     = (Inr [(''ChallengeName'', Some ''SOFTWARE_TOKEN_MFA''),
             (''Session'', Some ''session-1'')],
        \<lparr>users = [],
         sent = [InitiateAuthCommand USER_PASSWORD_AUTH ''app''
                   [(''USERNAME'', ''alice@example.com''), (''PASSWORD'', ''Abc123!@'')]],
         dbFault = None\<rparr>)
   \<and> login (service_on (challenging None)) alice_logs_in empty_world
     = (Inr [(''ChallengeName'', None), (''Session'', Some ''session-1'')],
        \<lparr>users = [],
         sent = [InitiateAuthCommand USER_PASSWORD_AUTH ''app''
                   [(''USERNAME'', ''alice@example.com''), (''PASSWORD'', ''Abc123!@'')]],
         dbFault = None\<rparr>)"
proof -
  have answer: "initiateAuth (client (service_on (challenging ch)))
                  (loginCommand (service_on (challenging ch)) alice_logs_in)
                = Inr \<lparr>InitiateAuthCommandOutput.ChallengeName = ch,
                       Session = Some ''session-1'', AuthenticationResult = None\<rparr>" for ch
    by (simp add: challenging_def service_on_def)
  have second: "associateSoftwareToken (client (service_on (challenging ch))) c
                = Inr \<lparr>SecretCode = Some ''secret-2'', Session = Some ''session-2''\<rparr>" for ch c
    by (simp add: challenging_def service_on_def stub_client_def)
  from login_challenge_handling [OF answer, where w = empty_world]
  have 1: "login (service_on (challenging (Some NEW_PASSWORD_REQUIRED))) alice_logs_in empty_world
     = (Inr [(''ChallengeName'', Some ''NEW_PASSWORD_REQUIRED''),
             (''Session'', Some ''session-1'')],
        \<lparr>users = [],
         sent = [InitiateAuthCommand USER_PASSWORD_AUTH ''app''
                   [(''USERNAME'', ''alice@example.com''), (''PASSWORD'', ''Abc123!@'')]],
         dbFault = None\<rparr>)"
    by (simp add: eval_defs alice_logs_in_def)
  from second login_challenge_handling [OF answer, where w = empty_world]
  have 2: "sent (snd (login (service_on (challenging (Some MFA_SETUP))) alice_logs_in empty_world))
     = [InitiateAuthCommand USER_PASSWORD_AUTH ''app''
          [(''USERNAME'', ''alice@example.com''), (''PASSWORD'', ''Abc123!@'')],
        AssociateSoftwareTokenCommand (Some ''session-1'')]
   \<and> fst (login (service_on (challenging (Some MFA_SETUP))) alice_logs_in empty_world)
     = Inr [(''ChallengeName'', Some ''MFA_SETUP''), (''Session'', Some ''session-2''),
            (''SecretCode'', Some ''secret-2'')]"
    by (simp add: eval_defs alice_logs_in_def)
  from login_challenge_handling [OF answer, where w = empty_world]
  have 3: "login (service_on (challenging (Some SOFTWARE_TOKEN_MFA))) alice_logs_in empty_world
     = (Inr [(''ChallengeName'', Some ''SOFTWARE_TOKEN_MFA''),
             (''Session'', Some ''session-1'')],
        \<lparr>users = [],
         sent = [InitiateAuthCommand USER_PASSWORD_AUTH ''app''
                   [(''USERNAME'', ''alice@example.com''), (''PASSWORD'', ''Abc123!@'')]],
         dbFault = None\<rparr>)"
    by (simp add: eval_defs alice_logs_in_def)
  from login_challenge_handling [OF answer, where w = empty_world]
  have 4: "login (service_on (challenging None)) alice_logs_in empty_world
     = (Inr [(''ChallengeName'', None), (''Session'', Some ''session-1'')],
        \<lparr>users = [],
         sent = [InitiateAuthCommand USER_PASSWORD_AUTH ''app''
                   [(''USERNAME'', ''alice@example.com''), (''PASSWORD'', ''Abc123!@'')]],
         dbFault = None\<rparr>)"
    by (simp add: eval_defs alice_logs_in_def)
  from 1 2 3 4 show ?thesis by simp
qed

section \<open>Properties of confirmLogin, forgotPassword and refreshToken\<close>

text \<open>
  C7. For every call of \<open>confirmLogin\<close> in which the provider rejects the command: an error
  named \<open>CodeMismatchException\<close> or \<open>ExpiredCodeException\<close> is raised as a bad request with
  message "Invalid code, please try again" and name \<open>CodeMismatchException\<close>; an error named
  \<open>NotAuthorizedException\<close> as a bad request with message "Session expired, please try
  again"; an error of any other name is raised again as it is.
\<close>

theorem confirmLogin_failure_reclassified:
  assumes "respondToAuthChallenge (client svc) (confirmLoginCommand svc input) = Inl error"
  shows "(name error = ''CodeMismatchException'' \<or> name error = ''ExpiredCodeException''
      \<longrightarrow> fst (confirmLogin svc input w) =
            Inl (BadRequestException
                   (MessageAndName ''Invalid code, please try again'' ''CodeMismatchException'')))
    \<and> (name error = ''NotAuthorizedException''
      \<longrightarrow> fst (confirmLogin svc input w) =
            Inl (BadRequestException
                   (MessageAndName ''Session expired, please try again''
                                   ''NotAuthorizedException'')))
    \<and> (name error \<noteq> ''CodeMismatchException'' \<and> name error \<noteq> ''ExpiredCodeException''
        \<and> name error \<noteq> ''NotAuthorizedException''
      \<longrightarrow> fst (confirmLogin svc input w) = Inl (Original error))"
  by (simp add: confirmLogin_def sendConfirmLoginCommand_def send_def assms)

theorem confirmLogin_failure_reclassified_witness:
  "fst (confirmLogin (service_on (failing_challenge ''CodeMismatchException''))
          alice_confirms_login empty_world)
     = Inl (BadRequestException
              (MessageAndName ''Invalid code, please try again'' ''CodeMismatchException''))
   \<and> fst (confirmLogin (service_on (failing_challenge ''ExpiredCodeException''))
          alice_confirms_login empty_world)
     = Inl (BadRequestException
              (MessageAndName ''Invalid code, please try again'' ''CodeMismatchException''))
   \<and> fst (confirmLogin (service_on (failing_challenge ''NotAuthorizedException''))
          alice_confirms_login empty_world)
     = Inl (BadRequestException
              (MessageAndName ''Session expired, please try again''
                              ''NotAuthorizedException''))
   \<and> fst (confirmLogin (service_on (failing_challenge ''TooManyRequestsException''))
          alice_confirms_login empty_world)
     = Inl (Original (JsError ''TooManyRequestsException'' ''provider text''))"
proof -
  have answer: "respondToAuthChallenge (client (service_on (failing_challenge n)))
                  (confirmLoginCommand (service_on (failing_challenge n)) alice_confirms_login)
                = Inl (JsError n ''provider text'')" for n
    by (simp add: failing_challenge_def service_on_def)
  from confirmLogin_failure_reclassified
         [OF answer [of "''CodeMismatchException''"], where w = empty_world]
       confirmLogin_failure_reclassified
         [OF answer [of "''ExpiredCodeException''"], where w = empty_world]
       confirmLogin_failure_reclassified
         [OF answer [of "''NotAuthorizedException''"], where w = empty_world]
       confirmLogin_failure_reclassified
         [OF answer [of "''TooManyRequestsException''"], where w = empty_world]
  show ?thesis by simp
qed

text \<open>
  C9. For every call of \<open>forgotPassword\<close> and of \<open>refreshToken\<close> in which the provider
  rejects the command, the call raises the provider's error itself, with the same name
  and message.
\<close>

theorem forgotPassword_refreshToken_pass_through:
  "(forgotPasswordCode (client svc) (forgotPasswordCommand svc e) = Inl error1
      \<longrightarrow> fst (forgotPassword svc e w) = Inl (Original error1))
   \<and> (initiateAuth (client svc) (refreshTokenCommand svc token) = Inl error2
      \<longrightarrow> fst (refreshToken svc token w) = Inl (Original error2))"
  by (simp add: forgotPassword_def sendForgotPasswordCommand_def refreshToken_def
      sendRefreshTokenCommand_def send_def)

theorem forgotPassword_refreshToken_pass_through_witness:
  "forgotPasswordCode (client (service_on throttled))
       (forgotPasswordCommand (service_on throttled) ''alice@example.com'')
     = Inl (JsError ''LimitExceededException'' ''slow down'')
   \<and> fst (forgotPassword (service_on throttled) ''alice@example.com'' empty_world)
     = Inl (Original (JsError ''LimitExceededException'' ''slow down''))
   \<and> initiateAuth (client (service_on throttled))
       (refreshTokenCommand (service_on throttled) ''refresh-1'')
     = Inl (JsError ''NotAuthorizedException'' ''token revoked'')
   \<and> fst (refreshToken (service_on throttled) ''refresh-1'' empty_world)
     = Inl (Original (JsError ''NotAuthorizedException'' ''token revoked''))"
proof -
  have a: "forgotPasswordCode (client (service_on throttled))
             (forgotPasswordCommand (service_on throttled) ''alice@example.com'')
           = Inl (JsError ''LimitExceededException'' ''slow down'')"
    by (simp add: throttled_def service_on_def)
  have b: "initiateAuth (client (service_on throttled))
             (refreshTokenCommand (service_on throttled) ''refresh-1'')
           = Inl (JsError ''NotAuthorizedException'' ''token revoked'')"
    by (simp add: throttled_def service_on_def)
  from a b forgotPassword_refreshToken_pass_through
         [where svc = "service_on throttled" and e = "''alice@example.com''"
            and token = "''refresh-1''" and w = empty_world
            and ?error1.0 = "JsError ''LimitExceededException'' ''slow down''"
            and ?error2.0 = "JsError ''NotAuthorizedException'' ''token revoked''"]
  show ?thesis by simp
qed

text \<open>
  C10. For every call of \<open>confirmLogin\<close> that the provider answers, the value returned is
  the \<open>AuthenticationResult\<close> of the answer and nothing else of it: two answers with the
  same \<open>AuthenticationResult\<close> give the same returned value, whatever challenge name and
  session each carries.
\<close>

theorem confirmLogin_returns_AuthenticationResult_only:
  assumes "respondToAuthChallenge (client svc) (confirmLoginCommand svc input) = Inr res"
    and "respondToAuthChallenge (client svc') (confirmLoginCommand svc' input') = Inr res'"
    and "RespondToAuthChallengeCommandOutput.AuthenticationResult res'
           = RespondToAuthChallengeCommandOutput.AuthenticationResult res"
  shows "fst (confirmLogin svc input w)
           = Inr (RespondToAuthChallengeCommandOutput.AuthenticationResult res)
         \<and> fst (confirmLogin svc' input' w') = fst (confirmLogin svc input w)"
  by (simp add: confirmLogin_def sendConfirmLoginCommand_def send_def assms)

theorem confirmLogin_returns_AuthenticationResult_only_witness:
  "fst (confirmLogin (service_on (answering_challenge (Some ''SMS_MFA'') (Some ''session-3'')))
          alice_confirms_login empty_world) = Inr (Some tokens)
   \<and> fst (confirmLogin (service_on (answering_challenge None None))
          alice_confirms_login empty_world)
     = fst (confirmLogin (service_on (answering_challenge (Some ''SMS_MFA'') (Some ''session-3'')))
          alice_confirms_login empty_world)"
proof -
  have answer: "respondToAuthChallenge (client (service_on (answering_challenge ch s)))
                  (confirmLoginCommand (service_on (answering_challenge ch s))
                     alice_confirms_login)
                = Inr \<lparr>RespondToAuthChallengeCommandOutput.ChallengeName = ch,
                       Session = s, AuthenticationResult = Some tokens\<rparr>" for ch s
    by (simp add: answering_challenge_def service_on_def)
  have same: "RespondToAuthChallengeCommandOutput.AuthenticationResult
                \<lparr>RespondToAuthChallengeCommandOutput.ChallengeName = None,
                 Session = None, AuthenticationResult = Some tokens\<rparr>
              = RespondToAuthChallengeCommandOutput.AuthenticationResult
                \<lparr>RespondToAuthChallengeCommandOutput.ChallengeName = Some ''SMS_MFA'',
                 Session = Some ''session-3'', AuthenticationResult = Some tokens\<rparr>"
    by simp
  from confirmLogin_returns_AuthenticationResult_only
         [OF answer answer same, where w = empty_world and w' = empty_world]
  show ?thesis by simp
qed

section \<open>Properties of the password decorator\<close>

lemma first_line_Nil: "first_line [] = []"
  by (simp add: first_line_def)

lemma first_line_Cons:
  "first_line (c # cs) = (if LineTerminator c then [] else c # first_line cs)"
  by (simp add: first_line_def)

lemma length_first_line: "length (first_line s) \<le> length s"
  by (simp add: first_line_def length_takeWhile_le)

lemma first_line_whole: "\<not> list_ex LineTerminator s \<Longrightarrow> first_line s = s"
  by (simp add: first_line_def list_ex_iff)

text \<open>
  \<^verbatim>\<open>(?=.*[class])\<close> at the start of the string: when no line terminator is in the class,
  the lookahead holds exactly when the first line has a code unit of the class.
\<close>

lemma lookahead_class:
  assumes "\<And>c. atom_matches (Class ranges) c \<Longrightarrow> \<not> LineTerminator c"
  shows "matches_prefix [AtLeast 0 Dot, One (Class ranges)] s
           = list_ex (atom_matches (Class ranges)) (first_line s)"
proof (induction s)
  case Nil
  show ?case by (simp add: first_line_Nil)
next
  case (Cons c cs)
  show ?case
  proof (cases "LineTerminator c")
    case True
    with assms have "\<not> atom_matches (Class ranges) c" by blast
    with True show ?thesis by (simp add: first_line_Cons)
  next
    case False
    with Cons show ?thesis by (simp add: first_line_Cons)
  qed
qed

text \<open>\<^verbatim>\<open>(?=.{n,})\<close> at the start of the string: the first line has \<open>n\<close> code units.\<close>

lemma lookahead_at_least:
  "matches_prefix [AtLeast n Dot] s = (n \<le> length (first_line s))"
proof (induction s arbitrary: n)
  case Nil
  show ?case by (simp add: first_line_Nil)
next
  case (Cons c cs)
  show ?case
    using Cons [of "n - 1"] by (cases n) (auto simp add: first_line_Cons)
qed

lemma in_range_single: "in_range c (d, d) = (c = d)"
  by (auto simp add: in_range_def)

lemma class_lower:
  "atom_matches (Class [(unit_of CHR ''a'', unit_of CHR ''z'')]) c = lowercase c"
  by (simp add: lowercase_def)

lemma class_upper:
  "atom_matches (Class [(unit_of CHR ''A'', unit_of CHR ''Z'')]) c = uppercase c"
  by (simp add: uppercase_def)

lemma class_digit:
  "atom_matches (Class [(unit_of CHR ''0'', unit_of CHR ''9'')]) c = digit c"
  by (simp add: digit_def)

lemma class_symbols: "atom_matches (Class symbols) c = symbol c"
  by (simp add: symbols_def symbol_def utf16_def in_range_single)

lemma lowercase_not_terminator: "lowercase c \<Longrightarrow> \<not> LineTerminator c"
  by (auto simp add: lowercase_def in_range_def LineTerminator_def unit_of_def)

lemma uppercase_not_terminator: "uppercase c \<Longrightarrow> \<not> LineTerminator c"
  by (auto simp add: uppercase_def in_range_def LineTerminator_def unit_of_def)

lemma digit_not_terminator: "digit c \<Longrightarrow> \<not> LineTerminator c"
  by (auto simp add: digit_def in_range_def LineTerminator_def unit_of_def)

lemma symbol_not_terminator: "symbol c \<Longrightarrow> \<not> LineTerminator c"
  by (auto simp add: symbol_def utf16_def LineTerminator_def unit_of_def)

lemma Matches_passwordPattern:
  "Matches passwordPattern s =
     (list_ex lowercase (first_line s) \<and> list_ex uppercase (first_line s) \<and>
      list_ex digit (first_line s) \<and> list_ex symbol (first_line s) \<and>
      8 \<le> length (first_line s))"
proof -
  have l: "matches_prefix [AtLeast 0 Dot, One (Class [(unit_of CHR ''a'', unit_of CHR ''z'')])] s
             = list_ex lowercase (first_line s)"
    using lookahead_class [of "[(unit_of CHR ''a'', unit_of CHR ''z'')]" s]
      lowercase_not_terminator
    unfolding class_lower by blast
  have u: "matches_prefix [AtLeast 0 Dot, One (Class [(unit_of CHR ''A'', unit_of CHR ''Z'')])] s
             = list_ex uppercase (first_line s)"
    using lookahead_class [of "[(unit_of CHR ''A'', unit_of CHR ''Z'')]" s]
      uppercase_not_terminator
    unfolding class_upper by blast
  have d: "matches_prefix [AtLeast 0 Dot, One (Class [(unit_of CHR ''0'', unit_of CHR ''9'')])] s
             = list_ex digit (first_line s)"
    using lookahead_class [of "[(unit_of CHR ''0'', unit_of CHR ''9'')]" s]
      digit_not_terminator
    unfolding class_digit by blast
  have y: "matches_prefix [AtLeast 0 Dot, One (Class symbols)] s
             = list_ex symbol (first_line s)"
    using lookahead_class [of symbols s] symbol_not_terminator
    unfolding class_symbols by blast
  show ?thesis
    unfolding Matches_def passwordPattern_def
    by (simp only: list.pred_inject l u d y lookahead_at_least simp_thms)
qed

lemma IsPassword_first_line:
  "IsPassword len s = (8 \<le> len s \<and> password_policy_spec (first_line s))"
  unfolding IsPassword_def IsNotEmpty_def MinLength_def Matches_passwordPattern
    password_policy_spec_def
  by (auto simp add: first_line_Nil)

text \<open>
  On a string of one line the decorator accepts exactly when the library counts at least
  8 and the whole string meets the specification's policy.
\<close>

lemma IsPassword_single_line:
  "\<not> list_ex LineTerminator s \<Longrightarrow>
   IsPassword len s = (8 \<le> len s \<and> password_policy_spec s)"
  by (simp add: IsPassword_first_line first_line_whole)

lemmas policy_defs = password_policy_spec_def lowercase_def uppercase_def digit_def symbol_def
  in_range_def LineTerminator_def first_line_def utf16_def unit_of_def

lemmas length_defs = isLength_len_def presentationSequences_def

text \<open>
  The line separator U+2028 ends the first line as a line feed does, and the two length
  tests differ: a string of \<^verbatim>\<open>Aa1!\<close> and two surrogate pairs has a first line of 8
  code units that meets the policy, and the library counts 6.
\<close>

lemma separated_password_rejected:
  "password_policy_spec separated_password \<and> \<not> IsPassword len separated_password"
  by (simp add: IsPassword_first_line separated_password_def policy_defs)

lemma astral_password_rejected:
  "password_policy_spec (first_line astral_password) \<and> isLength_len astral_password = 6
   \<and> \<not> IsPassword isLength_len astral_password"
  by (simp add: IsPassword_first_line astral_password_def policy_defs length_defs)



end
